theory Spec2Isabelle
  imports Complex_Main
begin

section \<open>Adornment enumerations (components/TextInput/Adornment/enums.tsx)\<close>

text \<open>
  A TypeScript string enum is a closed set of members, each bound to one string literal.
  The members are the constructors of a datatype; the literal of a member is given by a
  value function.
\<close>

datatype AdornmentType = Icon | Affix | Loading

datatype AdornmentSide = Right | Left

datatype InputMode = Outlined | Flat

fun AdornmentType_value :: "AdornmentType \<Rightarrow> string" where
  "AdornmentType_value Icon = ''icon''"
| "AdornmentType_value Affix = ''affix''"
| "AdornmentType_value Loading = ''loading''"

fun AdornmentSide_value :: "AdornmentSide \<Rightarrow> string" where
  "AdornmentSide_value Right = ''right''"
| "AdornmentSide_value Left = ''left''"

fun InputMode_value :: "InputMode \<Rightarrow> string" where
  "InputMode_value Outlined = ''outlined''"
| "InputMode_value Flat = ''flat''"


section \<open>Drawer section (components/Drawer/DrawerSection.tsx)\<close>

subsection \<open>Theme\<close>

text \<open>
  The fields of the theme that the component reads: the generation flag \<open>isV3\<close>, the two
  colours \<open>colors.onSurfaceVariant\<close> and \<open>colors.text\<close>, and the two fonts
  \<open>fonts.titleSmall\<close> and \<open>fonts.medium\<close>. A font is only ever spread into a style, so
  its type is a parameter. The field \<open>text'\<close> is \<open>colors.text\<close>.
\<close>

record theme_colors =
  onSurfaceVariant :: string
  text' :: string

record 'font theme_fonts =
  titleSmall :: 'font
  medium :: 'font

record 'font internal_theme =
  isV3 :: bool
  colors :: theme_colors
  fonts :: "'font theme_fonts"

subsection \<open>Imports of the module\<close>

text \<open>
  What the module imports from outside the files at hand, taken as parameters:
  the hook \<open>useInternalTheme\<close>, which resolves the theme from the render context of the
  current pass and the optional override; the four operations of the \<open>color\<close> package
  used in the chain \<open>color(c).alpha(a).rgb().string()\<close>; and the colour token
  \<open>MD3Colors.neutralVariant50\<close>.
\<close>

record ('ctx, 'ov, 'font, 'c) module_imports =
  useInternalTheme :: "'ctx \<Rightarrow> 'ov option \<Rightarrow> 'font internal_theme"
  color :: "string \<Rightarrow> 'c"
  alpha :: "'c \<Rightarrow> rat \<Rightarrow> 'c"
  rgb :: "'c \<Rightarrow> 'c"
  color_string :: "'c \<Rightarrow> string"
  neutralVariant50 :: string

subsection \<open>Props\<close>

text \<open>
  An optional prop is an \<open>option\<close>: \<open>None\<close> is \<open>undefined\<close>. The children, the
  \<open>style\<close> prop, the font scaling ceiling, the theme override and the remaining
  pass-through props are forwarded unread, so their types are parameters.
\<close>

record ('node, 'sty, 'num, 'ov, 'rest) props =
  children :: 'node
  title :: "string option"
  theme :: "'ov option"
  style :: "'sty option"
  showDivider :: "bool option"
  titleMaxFontSizeMultiplier :: "'num option"
  enableCustomStyle :: "bool option"
  rest :: 'rest

subsection \<open>Render tree\<close>

datatype style_value = Num int | Str string

type_synonym style_obj = "(string \<times> style_value) list"

text \<open>
  An entry of a style array: a style object (a literal or an entry of the style sheet),
  the caller's \<open>style\<close> prop, the spread \<open>{ ...font }\<close> of a font, or the value
  \<open>false\<close> left by a guard \<open>cond && style\<close>.
\<close>

datatype ('sty, 'font) style_entry =
    Style style_obj
  | StyleProp "'sty option"
  | FontSpread 'font
  | StyleFalse

text \<open>
  The elements the component creates, each with the props it is given, and what can
  stand in a child position: an element, the forwarded \<open>children\<close>, or the falsy value
  a guard \<open>x && element\<close> leaves (\<open>undefined\<close>, \<open>false\<close> or a string).
\<close>

datatype ('node, 'sty, 'num, 'rest, 'font) element =
    is_View: View
      (view_style: "('sty, 'font) style_entry list")
      (view_rest: "'rest option")
      (view_children: "('node, 'sty, 'num, 'rest, 'font) child list")
  | is_Text: Text
      (variant: string)
      (numberOfLines: nat)
      (text_style: "('sty, 'font) style_entry list")
      (maxFontSizeMultiplier: "'num option")
      (text_children: "string option")
  | is_Divider: Divider
      (horizontalInset: "bool option")
      (bold: "bool option")
      (divider_style: "('sty, 'font) style_entry list")
      (divider_theme: "'font internal_theme")
and ('node, 'sty, 'num, 'rest, 'font) child =
    ChildElement "('node, 'sty, 'num, 'rest, 'font) element"
  | ChildNodes 'node
  | ChildUndefined
  | ChildFalse
  | ChildString string

subsection \<open>Style sheet\<close>

definition styles_container :: style_obj where
  "styles_container = [(''marginBottom'', Num 4)]"

definition styles_titleContainer :: style_obj where
  "styles_titleContainer = [(''height'', Num 40), (''justifyContent'', Str ''center'')]"

definition styles_v3TitleContainer :: style_obj where
  "styles_v3TitleContainer = [(''height'', Num 56)]"

definition styles_divider :: style_obj where
  "styles_divider = [(''marginTop'', Num 4)]"

definition styles_v3Divider :: "('ctx, 'ov, 'font, 'c) module_imports \<Rightarrow> style_obj" where
  "styles_v3Divider I = [(''backgroundColor'', Str (neutralVariant50 I))]"

subsection \<open>JavaScript truthiness and guards\<close>

definition truthy_bool :: "bool option \<Rightarrow> bool" where
  "truthy_bool b = (case b of None \<Rightarrow> False | Some v \<Rightarrow> v)"

definition truthy_string :: "string option \<Rightarrow> bool" where
  "truthy_string s = (case s of None \<Rightarrow> False | Some v \<Rightarrow> v \<noteq> [])"

text \<open>
  \<open>title && e\<close> is \<open>title\<close> itself when \<open>title\<close> is falsy (\<open>undefined\<close> or the empty
  string) and \<open>e\<close> otherwise; \<open>showDivider && e\<close> is \<open>false\<close> or \<open>e\<close>.
\<close>

definition string_and ::
  "string option \<Rightarrow> ('node, 'sty, 'num, 'rest, 'font) element \<Rightarrow>
   ('node, 'sty, 'num, 'rest, 'font) child" where
  "string_and s e =
     (case s of
        None \<Rightarrow> ChildUndefined
      | Some v \<Rightarrow> if v = [] then ChildString v else ChildElement e)"

definition bool_and ::
  "bool \<Rightarrow> ('node, 'sty, 'num, 'rest, 'font) element \<Rightarrow>
   ('node, 'sty, 'num, 'rest, 'font) child" where
  "bool_and b e = (if b then ChildElement e else ChildFalse)"

subsection \<open>The component\<close>

definition titleColor ::
  "('ctx, 'ov, 'font, 'c) module_imports \<Rightarrow> 'font internal_theme \<Rightarrow> string" where
  "titleColor I th =
     (if isV3 th then onSurfaceVariant (colors th)
      else color_string I (rgb I (alpha I (color I (text' (colors th))) (54 / 100))))"

definition titleMargin :: "'font internal_theme \<Rightarrow> bool option \<Rightarrow> int" where
  "titleMargin th ecs = (if isV3 th \<and> \<not> truthy_bool ecs then 28 else 16)"

definition font :: "'font internal_theme \<Rightarrow> 'font" where
  "font th = (if isV3 th then titleSmall (fonts th) else medium (fonts th))"

definition DrawerSection ::
  "('ctx, 'ov, 'font, 'c) module_imports \<Rightarrow> 'ctx \<Rightarrow> ('node, 'sty, 'num, 'ov, 'rest) props \<Rightarrow>
   ('node, 'sty, 'num, 'rest, 'font) element" where
  "DrawerSection I ctx p =
     (let th = useInternalTheme I ctx (theme p);
          ecs = enableCustomStyle p;
          show_divider = (case showDivider p of None \<Rightarrow> True | Some b \<Rightarrow> b)
      in View [Style styles_container, StyleProp (style p)] (Some (rest p))
           [ string_and (title p)
               (View
                  [ Style styles_titleContainer,
                    (if isV3 th \<and> \<not> truthy_bool ecs
                     then Style styles_v3TitleContainer
                     else Style [(''height'', Num 40)]) ]
                  None
                  [ string_and (title p)
                      (Text
                         (if truthy_bool ecs then ''titleMedium'' else ''titleSmall'')
                         1
                         [ Style [ (''color'', Str (titleColor I th)),
                                   (''marginLeft'', Num (titleMargin th ecs)) ],
                           (if \<not> truthy_bool ecs then FontSpread (font th) else StyleFalse) ]
                         (titleMaxFontSizeMultiplier p)
                         (title p)) ]),
             ChildNodes (children p),
             bool_and show_divider
               (Divider
                  (if isV3 th then Some (\<not> truthy_bool ecs) else None)
                  (if isV3 th then Some True else None)
                  [ Style styles_divider,
                    (if isV3 th then Style (styles_v3Divider I) else StyleFalse) ]
                  th) ])"

subsection \<open>Reading a render tree\<close>

text \<open>
  All elements of a tree in document order, the root first; the forwarded children are
  not elements created by the component and contribute none.
\<close>

fun elements ::
  "('node, 'sty, 'num, 'rest, 'font) element \<Rightarrow> ('node, 'sty, 'num, 'rest, 'font) element list"
and child_elements ::
  "('node, 'sty, 'num, 'rest, 'font) child \<Rightarrow> ('node, 'sty, 'num, 'rest, 'font) element list"
where
  "elements (View s r cs) = View s r cs # concat (map child_elements cs)"
| "elements (Text v n s m t) = [Text v n s m t]"
| "elements (Divider h b s th) = [Divider h b s th]"
| "child_elements (ChildElement e) = elements e"
| "child_elements (ChildNodes n) = []"
| "child_elements ChildUndefined = []"
| "child_elements ChildFalse = []"
| "child_elements (ChildString s) = []"

text \<open>The elements strictly below the root.\<close>

definition descendants ::
  "('node, 'sty, 'num, 'rest, 'font) element \<Rightarrow> ('node, 'sty, 'num, 'rest, 'font) element list"
where
  "descendants e = tl (elements e)"

text \<open>
  The host platform resolves a style array from left to right, a later entry overriding
  an earlier one and \<open>false\<close> being skipped. \<open>flattenStyle\<close> does so for arrays made of
  style objects and \<open>false\<close>; an array with an entry whose keys are not known here (the
  caller's style, a spread font) has no resolution in the model.
\<close>

fun flattenStyle :: "('sty, 'font) style_entry list \<Rightarrow> (string \<rightharpoonup> style_value) option" where
  "flattenStyle [] = Some Map.empty"
| "flattenStyle (Style obj # es) = map_option (\<lambda>m. map_of obj ++ m) (flattenStyle es)"
| "flattenStyle (StyleFalse # es) = flattenStyle es"
| "flattenStyle (StyleProp s # es) = None"
| "flattenStyle (FontSpread f # es) = None"

text \<open>
  The value a style array resolves a key to, when the array has a resolution and the key
  is set in it.
\<close>

definition resolved_style :: "string \<Rightarrow> ('sty, 'font) style_entry list \<Rightarrow> style_value option" where
  "resolved_style k es = (case flattenStyle es of None \<Rightarrow> None | Some m \<Rightarrow> m k)"

text \<open>
  The values that the style objects of an array assign to a key, in the order of the
  array. The entries whose keys are not known here are passed over.
\<close>

fun style_values :: "string \<Rightarrow> ('sty, 'font) style_entry list \<Rightarrow> style_value list" where
  "style_values k [] = []"
| "style_values k (Style obj # es) = map snd (filter (\<lambda>kv. fst kv = k) obj) @ style_values k es"
| "style_values k (StyleProp s # es) = style_values k es"
| "style_values k (FontSpread f # es) = style_values k es"
| "style_values k (StyleFalse # es) = style_values k es"

text \<open>
  The title containers of a rendered section are the views below the root, its title
  labels the text elements, its dividers the divider elements.
\<close>

definition title_containers ::
  "('node, 'sty, 'num, 'rest, 'font) element \<Rightarrow> ('node, 'sty, 'num, 'rest, 'font) element list"
where
  "title_containers e = filter is_View (descendants e)"

definition title_labels ::
  "('node, 'sty, 'num, 'rest, 'font) element \<Rightarrow> ('node, 'sty, 'num, 'rest, 'font) element list"
where
  "title_labels e = filter is_Text (descendants e)"

definition dividers ::
  "('node, 'sty, 'num, 'rest, 'font) element \<Rightarrow> ('node, 'sty, 'num, 'rest, 'font) element list"
where
  "dividers e = filter is_Divider (elements e)"

subsection \<open>Example inputs\<close>

text \<open>
  Two themes, one of each generation, and an instance of the imports on which the model
  can be evaluated. The render context of the example is the number of the render pass
  together with the theme of the enclosing provider; the example hook returns the
  override when there is one and the provider's theme otherwise. A colour of the example
  package is its text with an alpha channel.
\<close>

definition example_v3_theme :: "string internal_theme" where
  "example_v3_theme =
     \<lparr> isV3 = True,
       colors = \<lparr> onSurfaceVariant = ''rgba(73, 69, 79, 1)'', text' = ''#1c1b1f'' \<rparr>,
       fonts = \<lparr> titleSmall = ''titleSmall font'', medium = ''medium font'' \<rparr> \<rparr>"

definition example_legacy_theme :: "string internal_theme" where
  "example_legacy_theme =
     \<lparr> isV3 = False,
       colors = \<lparr> onSurfaceVariant = ''rgba(73, 69, 79, 1)'', text' = ''#000000'' \<rparr>,
       fonts = \<lparr> titleSmall = ''titleSmall font'', medium = ''medium font'' \<rparr> \<rparr>"

definition example_imports ::
  "(nat \<times> string internal_theme, string internal_theme, string, string \<times> rat) module_imports"
where
  "example_imports =
     \<lparr> useInternalTheme = (\<lambda>ctx ov. case ov of None \<Rightarrow> snd ctx | Some th \<Rightarrow> th),
       color = (\<lambda>s. (s, 1)),
       alpha = (\<lambda>c a. (fst c, a)),
       rgb = (\<lambda>c. c),
       color_string = (\<lambda>c. if snd c = 54 / 100 then fst c @ '' at 54%'' else fst c),
       neutralVariant50 = ''rgba(121, 116, 126, 1)'' \<rparr>"

text \<open>The section of the usage example: a title and two items, every other prop omitted.\<close>

definition example_props :: "(string list, unit, nat, string internal_theme, unit) props" where
  "example_props =
     \<lparr> children = [''First Item'', ''Second Item''],
       title = Some ''Some title'',
       theme = None,
       style = None,
       showDivider = None,
       titleMaxFontSizeMultiplier = None,
       enableCustomStyle = None,
       rest = () \<rparr>"


section \<open>The enumerations\<close>

text \<open>
  C9. The three adornment enumerations are closed sets: \<open>AdornmentType\<close> has exactly the
  members \<open>Icon\<close>, \<open>Affix\<close>, \<open>Loading\<close> with the literals "icon", "affix", "loading";
  \<open>AdornmentSide\<close> has exactly \<open>Right\<close>, \<open>Left\<close> with "right", "left"; \<open>InputMode\<close> has
  exactly \<open>Outlined\<close>, \<open>Flat\<close> with "outlined", "flat".
\<close>

theorem adornment_enums_closed:
  "AdornmentType_value Icon = ''icon'' \<and>
   AdornmentType_value Affix = ''affix'' \<and>
   AdornmentType_value Loading = ''loading'' \<and>
   (UNIV :: AdornmentType set) = {Icon, Affix, Loading} \<and>
   AdornmentSide_value Right = ''right'' \<and>
   AdornmentSide_value Left = ''left'' \<and>
   (UNIV :: AdornmentSide set) = {Right, Left} \<and>
   InputMode_value Outlined = ''outlined'' \<and>
   InputMode_value Flat = ''flat'' \<and>
   (UNIV :: InputMode set) = {Outlined, Flat}"
proof -
  have t: "(UNIV :: AdornmentType set) = {Icon, Affix, Loading}"
  proof -
    have "x \<in> {Icon, Affix, Loading}" for x :: AdornmentType
      by (cases x) simp_all
    then show ?thesis by blast
  qed
  have s: "(UNIV :: AdornmentSide set) = {Right, Left}"
  proof -
    have "x \<in> {Right, Left}" for x :: AdornmentSide
      by (cases x) simp_all
    then show ?thesis by blast
  qed
  have m: "(UNIV :: InputMode set) = {Outlined, Flat}"
  proof -
    have "x \<in> {Outlined, Flat}" for x :: InputMode
      by (cases x) simp_all
    then show ?thesis by blast
  qed
  from t s m show ?thesis by simp
qed

section \<open>The rendered section\<close>

lemmas render_defs =
  DrawerSection_def Let_def string_and_def bool_and_def descendants_def
  title_containers_def title_labels_def dividers_def

lemmas example_defs =
  example_imports_def example_props_def example_v3_theme_def example_legacy_theme_def

text \<open>
  C2. The resolved title colour is the theme's \<open>onSurfaceVariant\<close> colour on a
  current-generation theme, and on a legacy theme the theme's text colour taken through
  the colour package with alpha 0.54. It is the one colour set on the title label,
  whatever \<open>enableCustomStyle\<close>, \<open>showDivider\<close> and the other props are.
\<close>

theorem title_color_by_generation:
  assumes "th = useInternalTheme I ctx (theme p)"
  shows "titleColor I th =
           (if isV3 th then onSurfaceVariant (colors th)
            else color_string I (rgb I (alpha I (color I (text' (colors th))) (54 / 100)))) \<and>
         map (\<lambda>e. style_values ''color'' (text_style e)) (title_labels (DrawerSection I ctx p)) =
           (if truthy_string (title p)
            then [[Str (if isV3 th then onSurfaceVariant (colors th)
                        else color_string I (rgb I (alpha I (color I (text' (colors th))) (54 / 100))))]]
            else [])"
  using assms
  by (simp add: render_defs titleColor_def truthy_string_def split: option.split)

theorem title_color_by_generation_witness:
  "titleColor example_imports example_legacy_theme = ''#000000 at 54%'' \<and>
   map (\<lambda>e. style_values ''color'' (text_style e))
     (title_labels (DrawerSection example_imports (1, example_legacy_theme) example_props)) =
     [[Str ''#000000 at 54%'']]"
  using title_color_by_generation
    [of example_legacy_theme example_imports "(1, example_legacy_theme)" example_props]
  by (simp add: example_defs truthy_string_def)

text \<open>
  C3. A title container is emitted exactly when the title is present (a non-empty
  string), and then there is one, whose height is 56 on a current-generation theme
  without \<open>enableCustomStyle\<close> and 40 in every other case.
\<close>

theorem title_container_height:
  assumes "th = useInternalTheme I ctx (theme p)"
  shows "map (\<lambda>e. resolved_style ''height'' (view_style e))
           (title_containers (DrawerSection I ctx p)) =
         (if truthy_string (title p)
          then [Some (Num (if isV3 th \<and> enableCustomStyle p \<noteq> Some True then 56 else 40))]
          else [])"
  using assms
  by (auto simp add: render_defs resolved_style_def truthy_string_def truthy_bool_def
        styles_titleContainer_def styles_v3TitleContainer_def split: option.splits)

theorem title_container_height_witness:
  "map (\<lambda>e. resolved_style ''height'' (view_style e))
     (title_containers (DrawerSection example_imports (1, example_v3_theme) example_props)) =
     [Some (Num 56)] \<and>
   map (\<lambda>e. resolved_style ''height'' (view_style e))
     (title_containers (DrawerSection example_imports (1, example_v3_theme)
        (example_props\<lparr>enableCustomStyle := Some True\<rparr>))) =
     [Some (Num 40)] \<and>
   map (\<lambda>e. resolved_style ''height'' (view_style e))
     (title_containers (DrawerSection example_imports (1, example_legacy_theme) example_props)) =
     [Some (Num 40)]"
  using
    title_container_height
      [of example_v3_theme example_imports "(1, example_v3_theme)" example_props]
    title_container_height
      [of example_v3_theme example_imports "(1, example_v3_theme)"
          "example_props\<lparr>enableCustomStyle := Some True\<rparr>"]
    title_container_height
      [of example_legacy_theme example_imports "(1, example_legacy_theme)" example_props]
  by (simp add: example_defs truthy_string_def)

text \<open>
  C4. The resolved left margin of the title is 28 on a current-generation theme without
  \<open>enableCustomStyle\<close> and 16 otherwise, and it is the one left margin set on the title
  label.
\<close>

theorem title_margin_by_generation:
  assumes "th = useInternalTheme I ctx (theme p)"
  shows "titleMargin th (enableCustomStyle p) =
           (if isV3 th \<and> enableCustomStyle p \<noteq> Some True then 28 else 16) \<and>
         map (\<lambda>e. style_values ''marginLeft'' (text_style e))
           (title_labels (DrawerSection I ctx p)) =
           (if truthy_string (title p)
            then [[Num (if isV3 th \<and> enableCustomStyle p \<noteq> Some True then 28 else 16)]]
            else [])"
  using assms
  by (auto simp add: render_defs titleMargin_def truthy_string_def truthy_bool_def
        split: option.splits)

theorem title_margin_by_generation_witness:
  "titleMargin example_v3_theme (enableCustomStyle example_props) = 28 \<and>
   map (\<lambda>e. style_values ''marginLeft'' (text_style e))
     (title_labels (DrawerSection example_imports (1, example_v3_theme) example_props)) =
     [[Num 28]] \<and>
   map (\<lambda>e. style_values ''marginLeft'' (text_style e))
     (title_labels (DrawerSection example_imports (1, example_v3_theme)
        (example_props\<lparr>enableCustomStyle := Some True\<rparr>))) =
     [[Num 16]] \<and>
   map (\<lambda>e. style_values ''marginLeft'' (text_style e))
     (title_labels (DrawerSection example_imports (1, example_legacy_theme) example_props)) =
     [[Num 16]]"
  using
    title_margin_by_generation
      [of example_v3_theme example_imports "(1, example_v3_theme)" example_props]
    title_margin_by_generation
      [of example_v3_theme example_imports "(1, example_v3_theme)"
          "example_props\<lparr>enableCustomStyle := Some True\<rparr>"]
    title_margin_by_generation
      [of example_legacy_theme example_imports "(1, example_legacy_theme)" example_props]
  by (simp add: example_defs truthy_string_def)

text \<open>
  C5. When \<open>showDivider\<close> is true or omitted, the root's children end with the forwarded
  children followed by one divider. On a current-generation theme the divider is given
  \<open>horizontalInset\<close> as the negation of \<open>enableCustomStyle\<close>, \<open>bold\<close> as true and the
  background tint \<open>MD3Colors.neutralVariant50\<close>; on a legacy theme it is given neither
  flag and no tint.
\<close>

theorem divider_after_children:
  assumes "th = useInternalTheme I ctx (theme p)"
    and "showDivider p \<noteq> Some False"
  shows "drop 1 (view_children (DrawerSection I ctx p)) =
           [ChildNodes (children p),
            ChildElement
              (Divider
                 (if isV3 th then Some (enableCustomStyle p \<noteq> Some True) else None)
                 (if isV3 th then Some True else None)
                 [Style [(''marginTop'', Num 4)],
                  if isV3 th then Style [(''backgroundColor'', Str (neutralVariant50 I))]
                  else StyleFalse]
                 th)] \<and>
         map (\<lambda>d. resolved_style ''backgroundColor'' (divider_style d))
           (dividers (DrawerSection I ctx p)) =
           [if isV3 th then Some (Str (neutralVariant50 I)) else None]"
  using assms
  by (auto simp add: render_defs resolved_style_def truthy_bool_def
        styles_divider_def styles_v3Divider_def split: option.splits)

theorem divider_after_children_witness:
  "drop 1 (view_children (DrawerSection example_imports (1, example_v3_theme) example_props)) =
     [ChildNodes [''First Item'', ''Second Item''],
      ChildElement
        (Divider (Some True) (Some True)
           [Style [(''marginTop'', Num 4)],
            Style [(''backgroundColor'', Str ''rgba(121, 116, 126, 1)'')]]
           example_v3_theme)] \<and>
   drop 1 (view_children (DrawerSection example_imports (1, example_legacy_theme)
       (example_props\<lparr>showDivider := Some True\<rparr>))) =
     [ChildNodes [''First Item'', ''Second Item''],
      ChildElement
        (Divider None None [Style [(''marginTop'', Num 4)], StyleFalse] example_legacy_theme)]"
  using
    divider_after_children
      [of example_v3_theme example_imports "(1, example_v3_theme)" example_props]
    divider_after_children
      [of example_legacy_theme example_imports "(1, example_legacy_theme)"
          "example_props\<lparr>showDivider := Some True\<rparr>"]
  by (simp add: example_defs)

text \<open>
  C6. When \<open>showDivider\<close> is false the rendered tree has no divider, whatever the theme
  and the other props.
\<close>

theorem no_divider_when_hidden:
  assumes "showDivider p = Some False"
  shows "dividers (DrawerSection I ctx p) = []"
  using assms
  by (simp add: render_defs split: option.split)

theorem no_divider_when_hidden_witness:
  "dividers (DrawerSection example_imports (1, example_v3_theme)
     (example_props\<lparr>showDivider := Some False\<rparr>)) = [] \<and>
   dividers (DrawerSection example_imports (1, example_legacy_theme)
     (example_props\<lparr>showDivider := Some False, enableCustomStyle := Some True\<rparr>)) = []"
  using
    no_divider_when_hidden
      [of "example_props\<lparr>showDivider := Some False\<rparr>"
          example_imports "(1, example_v3_theme)"]
    no_divider_when_hidden
      [of "example_props\<lparr>showDivider := Some False, enableCustomStyle := Some True\<rparr>"
          example_imports "(1, example_legacy_theme)"]
  by (simp add: example_defs)

text \<open>
  C7. When the title is absent the rendered tree has no title container (and no title
  label), whatever the theme, \<open>showDivider\<close> and \<open>enableCustomStyle\<close> are.
\<close>

theorem no_title_container_when_absent:
  assumes "title p = None"
  shows "title_containers (DrawerSection I ctx p) = [] \<and>
         title_labels (DrawerSection I ctx p) = []"
  using assms
  by (simp add: render_defs)

theorem no_title_container_when_absent_witness:
  "title_containers (DrawerSection example_imports (1, example_v3_theme)
     (example_props\<lparr>title := None\<rparr>)) = [] \<and>
   title_labels (DrawerSection example_imports (1, example_v3_theme)
     (example_props\<lparr>title := None\<rparr>)) = []"
  using
    no_title_container_when_absent
      [of "example_props\<lparr>title := None\<rparr>" example_imports "(1, example_v3_theme)"]
  by (simp add: example_defs)

text \<open>
  C8. The resolved title font is the theme's \<open>titleSmall\<close> font on a current-generation
  theme and its \<open>medium\<close> font on a legacy theme. The style of the title label is the
  object setting the colour and the left margin, followed by the spread of the resolved
  font, and by \<open>false\<close> in its place when \<open>enableCustomStyle\<close> is enabled.
\<close>

theorem title_font_by_generation:
  assumes "th = useInternalTheme I ctx (theme p)"
  shows "font th = (if isV3 th then titleSmall (fonts th) else medium (fonts th)) \<and>
         map text_style (title_labels (DrawerSection I ctx p)) =
           (if truthy_string (title p)
            then [[Style [(''color'', Str (titleColor I th)),
                          (''marginLeft'', Num (titleMargin th (enableCustomStyle p)))],
                   if enableCustomStyle p = Some True then StyleFalse
                   else FontSpread (if isV3 th then titleSmall (fonts th) else medium (fonts th))]]
            else [])"
  using assms
  by (auto simp add: render_defs font_def truthy_string_def truthy_bool_def
        split: option.splits)

theorem title_font_by_generation_witness:
  "font example_v3_theme = ''titleSmall font'' \<and>
   font example_legacy_theme = ''medium font'' \<and>
   map text_style
     (title_labels (DrawerSection example_imports (1, example_legacy_theme) example_props)) =
     [[Style [(''color'', Str ''#000000 at 54%''), (''marginLeft'', Num 16)],
       FontSpread ''medium font'']] \<and>
   map text_style
     (title_labels (DrawerSection example_imports (1, example_v3_theme)
        (example_props\<lparr>enableCustomStyle := Some True\<rparr>))) =
     [[Style [(''color'', Str ''rgba(73, 69, 79, 1)''), (''marginLeft'', Num 16)],
       StyleFalse]]"
  using
    title_font_by_generation
      [of example_v3_theme example_imports "(1, example_v3_theme)"
          "example_props\<lparr>enableCustomStyle := Some True\<rparr>"]
    title_font_by_generation
      [of example_legacy_theme example_imports "(1, example_legacy_theme)" example_props]
  by (simp add: example_defs truthy_string_def truthy_bool_def titleColor_def titleMargin_def)

text \<open>
  C10. When the title is the empty string the guard on the title fails as it does for an
  absent title: the rendered tree has no title container, and the elements below its
  root are those of the section rendered without a title.
\<close>

theorem no_title_container_when_empty:
  assumes "title p = Some []"
  shows "title_containers (DrawerSection I ctx p) = [] \<and>
         descendants (DrawerSection I ctx p) =
           descendants (DrawerSection I ctx (p\<lparr>title := None\<rparr>))"
  using assms
  by (simp add: render_defs)

theorem no_title_container_when_empty_witness:
  "title_containers (DrawerSection example_imports (1, example_v3_theme)
     (example_props\<lparr>title := Some []\<rparr>)) = [] \<and>
   descendants (DrawerSection example_imports (1, example_v3_theme)
     (example_props\<lparr>title := Some []\<rparr>)) =
   descendants (DrawerSection example_imports (1, example_v3_theme)
     (example_props\<lparr>title := None\<rparr>))"
  using
    no_title_container_when_empty
      [of "example_props\<lparr>title := Some []\<rparr>" example_imports "(1, example_v3_theme)"]
  by (simp add: example_defs)

end
